theory Spec2Isabelle
  imports Complex_Main "HOL-Library.Word" "HOL-Library.Char_ord"
begin

section \<open>The byte source\<close>

text \<open>
  Both parsers embed a \<^verbatim>\<open>*bufio.Reader\<close> over a seekable file. The model keeps the file
  content, the logical offset (file position minus buffered bytes, what \<^verbatim>\<open>CurrentOffset\<close>
  computes), the number of bytes that are buffered and not yet consumed, and whether
  bufio's \<^verbatim>\<open>lastByte\<close> is set (\<^verbatim>\<open>UnreadByte\<close> succeeds only then). The underlying
  file delivers every byte it is asked for up to the end of the file, as a regular file
  does; the buffer holds 4096 bytes (\<^verbatim>\<open>bufio.NewReader\<close>).
\<close>

type_synonym byte = char
type_synonym bytes = "char list"

record reader =
  data :: bytes
  pos :: nat
  buffered :: nat
  last_ok :: bool

definition defaultBufSize :: nat where
  "defaultBufSize = 4096"

text \<open>What the buffer holds once bufio has refilled an empty buffer.\<close>

definition avail :: "reader \<Rightarrow> nat" where
  "avail r = (if buffered r = 0 then min defaultBufSize (length (data r) - pos r) else buffered r)"

text \<open>\<^verbatim>\<open>ReadByte\<close>: refills when the buffer is empty; at the end of the file it fails and
  leaves \<^verbatim>\<open>lastByte\<close> as it was.\<close>

definition ReadByte :: "reader \<Rightarrow> byte option \<times> reader" where
  "ReadByte r =
     (if pos r < length (data r)
      then (Some (data r ! pos r),
            r\<lparr>pos := pos r + 1, buffered := avail r - 1, last_ok := True\<rparr>)
      else (None, r\<lparr>buffered := 0\<rparr>))"

text \<open>\<^verbatim>\<open>UnreadByte\<close>: pushes the last byte read back, also when a failed \<^verbatim>\<open>ReadByte\<close>
  came in between; without a last byte it fails (the callers drop the error) and nothing
  changes.\<close>

definition UnreadByte :: "reader \<Rightarrow> reader" where
  "UnreadByte r =
     (if last_ok r
      then r\<lparr>pos := pos r - 1, buffered := buffered r + 1, last_ok := False\<rparr>
      else r)"

text \<open>\<^verbatim>\<open>Peek n\<close> for \<open>n\<close> up to the buffer size: fills the buffer when it holds fewer than
  \<open>n\<close> bytes, returns up to \<open>n\<close> bytes without consuming them, and clears \<^verbatim>\<open>lastByte\<close>.\<close>

definition Peek :: "nat \<Rightarrow> reader \<Rightarrow> bytes \<times> reader" where
  "Peek n r =
     (let r1 = (if buffered r < n
                then r\<lparr>buffered := min defaultBufSize (length (data r) - pos r)\<rparr> else r)
      in (take (min n (buffered r1)) (drop (pos r1) (data r1)), r1\<lparr>last_ok := False\<rparr>))"

text \<open>\<^verbatim>\<open>Discard n\<close>: skips up to \<open>n\<close> bytes and clears \<^verbatim>\<open>lastByte\<close>.\<close>

fun Discard :: "nat \<Rightarrow> reader \<Rightarrow> reader" where
  "Discard n r =
     (if n = 0 then r
      else if pos r < length (data r)
      then Discard (n - 1) (r\<lparr>pos := pos r + 1, buffered := avail r - 1, last_ok := False\<rparr>)
      else r\<lparr>buffered := 0, last_ok := False\<rparr>)"

declare Discard.simps [simp del]

text \<open>\<^verbatim>\<open>Read\<close> into a slice of \<open>n\<close> bytes, \<open>0 < n < 4096\<close>: bufio copies what the buffer holds
  (after one refill when it is empty) and never more, so fewer than \<open>n\<close> bytes come back
  when the buffer holds fewer. No byte and an error at the end of the file.\<close>

definition Read :: "nat \<Rightarrow> reader \<Rightarrow> bytes \<times> reader" where
  "Read n r =
     (let k = min n (avail r) in
      if k = 0 then ([], r\<lparr>buffered := 0\<rparr>)
      else (take k (drop (pos r) (data r)),
            r\<lparr>pos := pos r + k, buffered := avail r - k, last_ok := True\<rparr>))"

text \<open>\<^verbatim>\<open>ReadBytes delim\<close> (its result is dropped by the caller): consumes through the first
  \<open>delim\<close>, or to the end of the file. bufio searches the buffer, hands over a full buffer
  as a fragment, and refills otherwise.\<close>

function ReadBytes :: "byte \<Rightarrow> reader \<Rightarrow> reader" where
  "ReadBytes delim r =
     (let window = take (buffered r) (drop (pos r) (data r)) in
      if delim \<in> set window then
        (let i = length (takeWhile (\<lambda>b. b \<noteq> delim) window) in
         r\<lparr>pos := pos r + i + 1, buffered := buffered r - (i + 1), last_ok := True\<rparr>)
      else if defaultBufSize \<le> length window then
        ReadBytes delim (r\<lparr>pos := pos r + length window, buffered := 0, last_ok := True\<rparr>)
      else if min defaultBufSize (length (data r) - pos r) \<le> buffered r then
        r\<lparr>pos := pos r + length window, buffered := 0,
          last_ok := (last_ok r \<or> window \<noteq> [])\<rparr>
      else ReadBytes delim (r\<lparr>buffered := min defaultBufSize (length (data r) - pos r)\<rparr>))"
  by pat_completeness auto
termination
  by (relation "measures [\<lambda>(d, r). length (data r) - pos r,
                          \<lambda>(d, r). defaultBufSize - buffered r]")
     (auto simp: defaultBufSize_def)

declare ReadBytes.simps [simp del]

text \<open>\<^verbatim>\<open>Seek(offset, io.SeekStart)\<close>: resets the buffer, then seeks the file. A negative
  offset is refused by the file, whose position then stays where the buffered reads had
  left it; the callers drop that error.\<close>

definition Seek :: "int \<Rightarrow> reader \<Rightarrow> reader" where
  "Seek offset r =
     (if offset < 0
      then r\<lparr>pos := pos r + buffered r, buffered := 0, last_ok := False\<rparr>
      else r\<lparr>pos := nat offset, buffered := 0, last_ok := False\<rparr>)"

definition CurrentOffset :: "reader \<Rightarrow> int" where
  "CurrentOffset r = int (pos r)"

text \<open>A reader freshly opened on a file.\<close>

definition NewReader :: "bytes \<Rightarrow> reader" where
  "NewReader d = \<lparr>data = d, pos = 0, buffered = 0, last_ok = False\<rparr>"

section \<open>Values\<close>

text \<open>A call of the program returns, panics, or does not return; \<open>Diverges\<close> is the value
  of a call that has used up its fuel.\<close>

datatype 'a outcome = Diverges | Panics | Returns 'a

definition then_do :: "'a outcome \<Rightarrow> ('a \<Rightarrow> 'b outcome) \<Rightarrow> 'b outcome" where
  "then_do m f = (case m of Diverges \<Rightarrow> Diverges | Panics \<Rightarrow> Panics | Returns x \<Rightarrow> f x)"

datatype error =
    ErrorRead
  | EndOfArray
  | EndOfDictionary
  | ErrorPassword
  | EOF
  | NewError string

datatype keyword =
    KEYWORD_NULL
  | KEYWORD_F
  | KEYWORD_N
  | KEYWORD_OBJ
  | KEYWORD_ENDOBJ
  | KEYWORD_R
  | KEYWORD_STREAM
  | KEYWORD_ENDSTREAM
  | KEYWORD_TRAILER
  | KEYWORD_XREF
  | KEYWORD_TRUE
  | KEYWORD_FALSE

text \<open>Numbers are \<^verbatim>\<open>float64\<close> in the program. The model computes with exact rationals:
  it agrees with the program wherever the floating-point operations are exact, as they
  are on integers below \<open>2^53\<close>.\<close>

datatype object =
    Keyword keyword
  | Name bytes
  | Number rat
  | String bytes
  | Array "object list"
  | Dictionary "(bytes \<times> object) list"
  | Reference int int

definition whitespace :: bytes where
  "whitespace = [CHR 0x00, CHR 0x09, CHR 0x0A, CHR 0x0C, CHR 0x0D, CHR '' '']"

definition delimiters :: bytes where
  "delimiters = ''()<>[]/%''"

text \<open>Modelled from the spec: \<^verbatim>\<open>NewKeyword\<close> is not among the sources. The spec has the
  keyword reader map a run of bytes to a fixed small set (\<^verbatim>\<open>obj endobj stream endstream
  trailer xref n f R null true false\<close>), unknown strings yielding the sentinel null keyword.
  The operators of content streams, which the spec leaves to collaborators, are unknown
  strings here.\<close>

definition NewKeyword :: "bytes \<Rightarrow> keyword" where
  "NewKeyword s =
     (if s = ''f'' then KEYWORD_F
      else if s = ''n'' then KEYWORD_N
      else if s = ''obj'' then KEYWORD_OBJ
      else if s = ''endobj'' then KEYWORD_ENDOBJ
      else if s = ''R'' then KEYWORD_R
      else if s = ''stream'' then KEYWORD_STREAM
      else if s = ''endstream'' then KEYWORD_ENDSTREAM
      else if s = ''trailer'' then KEYWORD_TRAILER
      else if s = ''xref'' then KEYWORD_XREF
      else if s = ''true'' then KEYWORD_TRUE
      else if s = ''false'' then KEYWORD_FALSE
      else KEYWORD_NULL)"

text \<open>Modelled from the spec: in \<^verbatim>\<open>pdf.go\<close> the same constructor returns a keyword and an
  error. The error is taken to be set exactly for the strings outside the fixed set other
  than \<^verbatim>\<open>null\<close> (the spec's \<^verbatim>\<open>Expected(token)\<close>).\<close>

definition NewKeyword_err :: "bytes \<Rightarrow> keyword \<times> error option" where
  "NewKeyword_err s =
     (if NewKeyword s = KEYWORD_NULL \<and> s \<noteq> ''null''
      then (KEYWORD_NULL, Some (NewError ''Expected keyword''))
      else (NewKeyword s, None))"

text \<open>Modelled from the spec: \<^verbatim>\<open>IsHex\<close> is not among the sources; a hex digit is one of
  \<^verbatim>\<open>0-9 a-f A-F\<close>. \<open>hexval\<close> and \<open>ParseUint\<close> stand for \<^verbatim>\<open>strconv.ParseUint\<close> on a
  string of digits of the given base.\<close>

definition IsHex :: "byte \<Rightarrow> bool" where
  "IsHex b \<longleftrightarrow> (CHR ''0'' \<le> b \<and> b \<le> CHR ''9'') \<or> (CHR ''a'' \<le> b \<and> b \<le> CHR ''f'')
                \<or> (CHR ''A'' \<le> b \<and> b \<le> CHR ''F'')"

definition hexval :: "byte \<Rightarrow> nat" where
  "hexval b =
     (if CHR ''0'' \<le> b \<and> b \<le> CHR ''9'' then of_char b - of_char CHR ''0''
      else if CHR ''a'' \<le> b \<and> b \<le> CHR ''f'' then of_char b - of_char CHR ''a'' + 10
      else of_char b - of_char CHR ''A'' + 10)"

fun ParseUint :: "nat \<Rightarrow> bytes \<Rightarrow> nat" where
  "ParseUint base [] = 0"
| "ParseUint base (c # cs) = hexval c * base ^ length cs + ParseUint base cs"

definition isDigit :: "byte \<Rightarrow> bool" where
  "isDigit b \<longleftrightarrow> CHR ''0'' \<le> b \<and> b \<le> CHR ''9''"

definition digit :: "byte \<Rightarrow> nat" where
  "digit b = of_char b - of_char CHR ''0''"

section \<open>The lexer of \<^verbatim>\<open>parser.go\<close>\<close>

lemma ReadByte_measure:
  "ReadByte r = (Some b, r1) \<Longrightarrow> length (data r1) - pos r1 < length (data r) - pos r"
  by (auto simp: ReadByte_def split: if_splits)

function Parser_consumeComment :: "reader \<Rightarrow> reader" where
  "Parser_consumeComment r =
     (case ReadByte r of
        (None, r1) \<Rightarrow> r1
      | (Some b, r1) \<Rightarrow>
          if b = CHR 0x0A then r1
          else if b = CHR 0x0D then
            (case ReadByte r1 of
               (None, r2) \<Rightarrow> r2
             | (Some b2, r2) \<Rightarrow> if b2 \<noteq> CHR 0x0A then UnreadByte r2 else r2)
          else Parser_consumeComment r1)"
  by pat_completeness auto
termination
  by (relation "measure (\<lambda>r. length (data r) - pos r)") (auto dest: ReadByte_measure[OF sym])

declare Parser_consumeComment.simps [simp del]

lemma Parser_consumeComment_mono:
  "data (Parser_consumeComment r) = data r \<and>
   (\<forall>n. n \<le> pos r \<longrightarrow> n \<le> pos (Parser_consumeComment r))"
proof (induction r rule: Parser_consumeComment.induct)
  case (1 r)
  show ?case using 1
    by (auto simp: Parser_consumeComment.simps[of r] ReadByte_def UnreadByte_def split: if_splits)
qed

function Parser_consumeWhitespace :: "reader \<Rightarrow> reader" where
  "Parser_consumeWhitespace r =
     (case ReadByte r of
        (None, r1) \<Rightarrow> r1
      | (Some b, r1) \<Rightarrow>
          if b = CHR ''%'' then Parser_consumeWhitespace (Parser_consumeComment r1)
          else if b \<notin> set whitespace then UnreadByte r1
          else Parser_consumeWhitespace r1)"
  by pat_completeness auto
termination
proof (relation "measure (\<lambda>r. length (data r) - pos r)", goal_cases)
  case 1
  show ?case by simp
next
  case (2 r x r1 b)
  then have "ReadByte r = (Some b, r1)" by simp
  then show ?case using Parser_consumeComment_mono[of r1]
    by (auto simp: ReadByte_def split: if_splits)
next
  case (3 r x r1 b)
  then have "ReadByte r = (Some b, r1)" by simp
  from ReadByte_measure[OF this] show ?case by simp
qed

declare Parser_consumeWhitespace.simps [simp del]

lemma Parser_consumeWhitespace_mono:
  "data (Parser_consumeWhitespace r) = data r \<and>
   (\<forall>n. n \<le> pos r \<longrightarrow> n \<le> pos (Parser_consumeWhitespace r))"
proof (induction r rule: Parser_consumeWhitespace.induct)
  case (1 r)
  show ?case using 1
    by (auto simp: Parser_consumeWhitespace.simps[of r] Parser_consumeComment_mono
        ReadByte_def UnreadByte_def split: if_splits)
qed

text \<open>The digit loop of \<^verbatim>\<open>ReadInt64\<close> (the same text in both files): \<^verbatim>\<open>int64\<close>
  arithmetic, which wraps around.\<close>

function readInt64_loop :: "64 word \<Rightarrow> reader \<Rightarrow> 64 word \<times> reader" where
  "readInt64_loop v r =
     (case ReadByte r of
        (None, r1) \<Rightarrow> (v, r1)
      | (Some b, r1) \<Rightarrow>
          if b < CHR ''0'' \<or> CHR ''9'' < b then (v, UnreadByte r1)
          else readInt64_loop (v * 10 + of_nat (digit b)) r1)"
  by pat_completeness auto
termination
  by (relation "measure (\<lambda>(v, r). length (data r) - pos r)")
     (auto dest: ReadByte_measure[OF sym])

declare readInt64_loop.simps [simp del]

definition Parser_ReadInt64 :: "reader \<Rightarrow> int \<times> error option \<times> reader" where
  "Parser_ReadInt64 r =
     (case ReadByte (Parser_consumeWhitespace r) of
        (None, r1) \<Rightarrow> (0, Some (NewError ''Expected int''), UnreadByte r1)
      | (Some b, r1) \<Rightarrow>
          if b < CHR ''0'' \<or> CHR ''9'' < b
          then (0, Some (NewError ''Expected int''), UnreadByte r1)
          else (case readInt64_loop (0 * 10 + of_nat (digit b)) r1 of
                  (v, r2) \<Rightarrow> (sint v, None, r2)))"

text \<open>\<^verbatim>\<open>int\<close> has 64 bits on the platforms the program is built for, so \<^verbatim>\<open>int(value)\<close>
  keeps the value.\<close>

definition Parser_ReadInt :: "reader \<Rightarrow> int \<times> error option \<times> reader" where
  "Parser_ReadInt r = Parser_ReadInt64 r"

function Parser_ReadKeyword_loop :: "bytes \<Rightarrow> reader \<Rightarrow> bytes \<times> reader" where
  "Parser_ReadKeyword_loop kw r =
     (case ReadByte r of
        (None, r1) \<Rightarrow> (kw, r1)
      | (Some b, r1) \<Rightarrow>
          if b \<in> set whitespace \<or> b \<in> set delimiters then (kw, UnreadByte r1)
          else Parser_ReadKeyword_loop (kw @ [b]) r1)"
  by pat_completeness auto
termination
  by (relation "measure (\<lambda>(kw, r). length (data r) - pos r)")
     (auto dest: ReadByte_measure[OF sym])

declare Parser_ReadKeyword_loop.simps [simp del]

definition Parser_ReadKeyword :: "reader \<Rightarrow> keyword \<times> reader" where
  "Parser_ReadKeyword r =
     (case Parser_ReadKeyword_loop [] (Parser_consumeWhitespace r) of
        (kw, r1) \<Rightarrow> (NewKeyword kw, r1))"

text \<open>The two bytes after \<^verbatim>\<open>#\<close> in a name (the same text in both files): the code starts
  as \<^verbatim>\<open>00\<close>, and the loop stops at the end of the file or at the first byte that is no hex
  digit, which it unreads.\<close>

definition readName_code :: "reader \<Rightarrow> bytes \<times> reader" where
  "readName_code r =
     (case ReadByte r of
        (None, r1) \<Rightarrow> (''00'', r1)
      | (Some b1, r1) \<Rightarrow>
          if \<not> IsHex b1 then (''00'', UnreadByte r1)
          else (case ReadByte r1 of
                  (None, r2) \<Rightarrow> ([b1, CHR ''0''], r2)
                | (Some b2, r2) \<Rightarrow>
                    if \<not> IsHex b2 then ([b1, CHR ''0''], UnreadByte r2)
                    else ([b1, b2], r2)))"

lemma readName_code_mono:
  "readName_code r = (c, r1) \<Longrightarrow> data r1 = data r \<and> (\<forall>n. n \<le> pos r \<longrightarrow> n \<le> pos r1)"
  by (auto simp: readName_code_def ReadByte_def UnreadByte_def split: if_splits)

text \<open>The bytes of a name after its \<^verbatim>\<open>/\<close> (the same text in both files).\<close>

function readName_loop :: "bytes \<Rightarrow> reader \<Rightarrow> bytes \<times> reader" where
  "readName_loop name r =
     (case ReadByte r of
        (None, r1) \<Rightarrow> (name, r1)
      | (Some b, r1) \<Rightarrow>
          if b \<in> set delimiters \<or> b \<in> set whitespace then (name, UnreadByte r1)
          else if b = CHR ''#'' then
            (case readName_code r1 of
               (code, r2) \<Rightarrow> readName_loop (name @ [char_of (ParseUint 16 code)]) r2)
          else readName_loop (name @ [b]) r1)"
  by pat_completeness auto
termination
proof (relation "measure (\<lambda>(name, r). length (data r) - pos r)", goal_cases)
  case 1
  show ?case by simp
next
  case (2 name r x r1 b c r2)
  then have "ReadByte r = (Some b, r1)" and "readName_code r1 = (c, r2)" by simp_all
  then show ?case using readName_code_mono[of r1 c r2]
    by (auto simp: ReadByte_def split: if_splits)
next
  case (3 name r x r1 b)
  then have "ReadByte r = (Some b, r1)" by simp
  from ReadByte_measure[OF this] show ?case by simp
qed

declare readName_loop.simps [simp del]

definition Parser_ReadName :: "reader \<Rightarrow> bytes \<times> error option \<times> reader" where
  "Parser_ReadName r =
     (case ReadByte (Parser_consumeWhitespace r) of
        (None, r1) \<Rightarrow> ([], Some ErrorRead, r1)
      | (Some b, r1) \<Rightarrow>
          if b \<noteq> CHR ''/'' then ([], Some (NewError ''Expected /''), r1)
          else (case readName_loop [] r1 of (name, r2) \<Rightarrow> (name, None, r2)))"

text \<open>The loops of \<^verbatim>\<open>ReadNumber\<close> (the same text in both files). ``Parse int part''
  returns the number, whether a point was met, and the reader; ``parse real part'' counts
  the digits after the point from 1.\<close>

function readNumber_int :: "rat \<Rightarrow> reader \<Rightarrow> rat \<times> bool \<times> reader" where
  "readNumber_int number r =
     (case ReadByte r of
        (None, r1) \<Rightarrow> (number, False, r1)
      | (Some b, r1) \<Rightarrow>
          if CHR ''0'' \<le> b \<and> b \<le> CHR ''9''
          then readNumber_int (number * 10 + of_nat (digit b)) r1
          else if b = CHR ''.'' then (number, True, r1)
          else (number, False, UnreadByte r1))"
  by pat_completeness auto
termination
  by (relation "measure (\<lambda>(number, r). length (data r) - pos r)")
     (auto dest: ReadByte_measure[OF sym])

declare readNumber_int.simps [simp del]

function readNumber_real :: "nat \<Rightarrow> rat \<Rightarrow> reader \<Rightarrow> rat \<times> reader" where
  "readNumber_real i number r =
     (case ReadByte r of
        (None, r1) \<Rightarrow> (number, r1)
      | (Some b, r1) \<Rightarrow>
          if CHR ''0'' \<le> b \<and> b \<le> CHR ''9''
          then readNumber_real (i + 1) (number + of_nat (digit b) / (10 * of_nat i)) r1
          else (number, UnreadByte r1))"
  by pat_completeness auto
termination
  by (relation "measure (\<lambda>(i, number, r). length (data r) - pos r)")
     (auto dest: ReadByte_measure[OF sym])

declare readNumber_real.simps [simp del]

text \<open>What \<^verbatim>\<open>ReadNumber\<close> does after its first byte.\<close>

definition readNumber_rest :: "bool \<Rightarrow> bool \<Rightarrow> rat \<Rightarrow> reader \<Rightarrow> rat \<times> reader" where
  "readNumber_rest isNegative isReal number r =
     (case (if \<not> isReal then readNumber_int number r else (number, True, r)) of
        (number1, isReal1, r1) \<Rightarrow>
          (case (if isReal1 then readNumber_real 1 number1 r1 else (number1, r1)) of
             (number2, r2) \<Rightarrow> (if isNegative then - number2 else number2, r2)))"

definition readNumber_first ::
  "byte \<Rightarrow> reader \<Rightarrow> rat \<times> error option \<times> reader" where
  "readNumber_first b r1 =
     (if b = CHR ''-'' then
        (case readNumber_rest True False 0 r1 of (n, r2) \<Rightarrow> (n, None, r2))
      else if CHR ''0'' \<le> b \<and> b \<le> CHR ''9'' then
        (case readNumber_rest False False (0 * 10 + of_nat (digit b)) r1 of
           (n, r2) \<Rightarrow> (n, None, r2))
      else if b = CHR ''.'' then
        (case readNumber_rest False True 0 r1 of (n, r2) \<Rightarrow> (n, None, r2))
      else if b \<noteq> CHR ''+'' then (0, Some (NewError ''Expected number''), UnreadByte r1)
      else (case readNumber_rest False False 0 r1 of (n, r2) \<Rightarrow> (n, None, r2)))"

definition Parser_ReadNumber :: "reader \<Rightarrow> rat \<times> error option \<times> reader" where
  "Parser_ReadNumber r =
     (case ReadByte (Parser_consumeWhitespace r) of
        (None, r1) \<Rightarrow> (0, Some ErrorRead, r1)
      | (Some b, r1) \<Rightarrow> readNumber_first b r1)"

text \<open>The escapes of a literal string that stand for one control byte.\<close>

definition unescape :: "byte \<Rightarrow> byte" where
  "unescape b =
     (if b = CHR ''n'' then CHR 0x0A
      else if b = CHR ''r'' then CHR 0x0D
      else if b = CHR ''t'' then CHR 0x09
      else if b = CHR ''b'' then CHR 0x08
      else if b = CHR ''f'' then CHR 0x0C
      else b)"

text \<open>At most two more octal digits after the first (the same text in both files).\<close>

definition readString_octal :: "bytes \<Rightarrow> reader \<Rightarrow> bytes \<times> reader" where
  "readString_octal code r =
     (case ReadByte r of
        (None, r1) \<Rightarrow> (code, r1)
      | (Some b, r1) \<Rightarrow>
          if b < CHR ''0'' \<or> CHR ''7'' < b then (code, UnreadByte r1)
          else (case ReadByte r1 of
                  (None, r2) \<Rightarrow> (code @ [b], r2)
                | (Some b2, r2) \<Rightarrow>
                    if b2 < CHR ''0'' \<or> CHR ''7'' < b2 then (code @ [b], UnreadByte r2)
                    else (code @ [b, b2], r2)))"

lemma readString_octal_mono:
  "readString_octal c r = (c1, r1) \<Longrightarrow>
     data r1 = data r \<and> (\<forall>n. n \<le> pos r \<longrightarrow> n \<le> pos r1)"
  by (auto simp: readString_octal_def ReadByte_def UnreadByte_def split: if_splits)

text \<open>The body of a literal string after its \<^verbatim>\<open>(\<close> (the same text in both files but
  for the decryption of the result, which is left to the caller): the bytes collected
  and the reader, at the closing parenthesis or at the end of the file. An octal code
  above 255 loses its last digit, which is unread.\<close>

function readString_loop :: "nat \<Rightarrow> bytes \<Rightarrow> reader \<Rightarrow> bytes \<times> reader" where
  "readString_loop open_parens s r =
     (case ReadByte r of
        (None, r1) \<Rightarrow> (s, r1)
      | (Some b, r1) \<Rightarrow>
          if b = CHR 0x5C then
            (case ReadByte r1 of
               (None, r2) \<Rightarrow> (s @ [CHR 0x5C], r2)
             | (Some b2, r2) \<Rightarrow>
                 if b2 = CHR 0x0A then readString_loop open_parens s r2
                 else if b2 = CHR 0x0D then
                   (case ReadByte r2 of
                      (None, r3) \<Rightarrow> (s, r3)
                    | (Some b3, r3) \<Rightarrow>
                        readString_loop open_parens s
                          (if b3 \<noteq> CHR 0x0A then UnreadByte r3 else r3))
                 else if CHR ''0'' \<le> unescape b2 \<and> unescape b2 \<le> CHR ''7'' then
                   (case readString_octal [unescape b2] r2 of
                      (code, r3) \<Rightarrow>
                        if 255 < ParseUint 8 code
                        then readString_loop open_parens
                               (s @ [char_of (ParseUint 8 (butlast code))]) (UnreadByte r3)
                        else readString_loop open_parens
                               (s @ [char_of (ParseUint 8 code)]) r3)
                 else readString_loop open_parens (s @ [unescape b2]) r2)
          else
            (let open_parens1 =
                   (if b = CHR ''('' then open_parens + 1
                    else if b = CHR '')'' then open_parens - 1
                    else open_parens)
             in if open_parens1 = 0 then (s, r1)
                else readString_loop open_parens1 (s @ [b]) r1))"
  by pat_completeness auto
termination
proof (relation "measure (\<lambda>(n, s, r). length (data r) - pos r)", goal_cases)
  case 1
  show ?case by simp
next
  case (2 open_parens s r x r1 b y r2 b2)
  then show ?case by (auto simp: ReadByte_def split: if_splits)
next
  case (3 open_parens s r x r1 b y r2 b2 z r3 b3)
  then show ?case by (auto simp: ReadByte_def UnreadByte_def split: if_splits)
next
  case (4 open_parens s r x r1 b y r2 b2 c r3)
  then have "readString_octal [unescape b2] r2 = (c, r3)" by simp
  from readString_octal_mono[OF this] 4 show ?case
    by (auto simp: ReadByte_def UnreadByte_def split: if_splits)
next
  case (5 open_parens s r x r1 b y r2 b2 c r3)
  then have "readString_octal [unescape b2] r2 = (c, r3)" by simp
  from readString_octal_mono[OF this] 5 show ?case
    by (auto simp: ReadByte_def UnreadByte_def split: if_splits)
next
  case (6 open_parens s r x r1 b y r2 b2)
  then show ?case by (auto simp: ReadByte_def split: if_splits)
next
  case (7 open_parens s r x r1 b)
  then show ?case by (auto simp: ReadByte_def split: if_splits)
qed

declare readString_loop.simps [simp del]

text \<open>A \<^verbatim>\<open>Decryptor\<close> is anything with a \<^verbatim>\<open>Decrypt\<close> method; its call may panic.\<close>

type_synonym decryptor = "bytes \<Rightarrow> bytes outcome"

definition noDecryptor :: decryptor where
  "noDecryptor d = Returns d"

definition Parser_ReadString ::
  "decryptor \<Rightarrow> reader \<Rightarrow> (object \<times> error option \<times> reader) outcome" where
  "Parser_ReadString decryptor r =
     (case ReadByte (Parser_consumeWhitespace r) of
        (None, r1) \<Rightarrow> Returns (String [], Some ErrorRead, r1)
      | (Some b, r1) \<Rightarrow>
          if b \<noteq> CHR ''('' then Returns (String [], Some (NewError ''Expected (''), r1)
          else (case readString_loop 1 [] r1 of
                  (s, r2) \<Rightarrow> then_do (decryptor s) (\<lambda>s1. Returns (String s1, None, r2))))"

text \<open>The pairs of hex digits of a hex string: \<open>i\<close> counts the digits of the pair at hand,
  \<open>code\<close> holds them, padded with \<^verbatim>\<open>0\<close>.\<close>

function Parser_ReadHexString_loop ::
  "nat \<Rightarrow> bytes \<Rightarrow> bytes \<Rightarrow> reader \<Rightarrow> bytes \<times> reader" where
  "Parser_ReadHexString_loop i code s r =
     (case ReadByte (Parser_consumeWhitespace r) of
        (None, r1) \<Rightarrow> (if 0 < i then s @ [char_of (ParseUint 16 code)] else s, r1)
      | (Some b, r1) \<Rightarrow>
          if b = CHR ''>'' then (if 0 < i then s @ [char_of (ParseUint 16 code)] else s, r1)
          else if \<not> IsHex b then Parser_ReadHexString_loop i code s r1
          else if i = 0 then Parser_ReadHexString_loop 1 (code[0 := b]) s r1
          else Parser_ReadHexString_loop 0 ''00''
                 (s @ [char_of (ParseUint 16 (code[1 := b]))]) r1)"
  by pat_completeness auto
termination
proof (relation "measure (\<lambda>(i, c, s, r). length (data r) - pos r)", goal_cases)
  case 1
  show ?case by simp
next
  case (2 i code s r x r1 b)
  then show ?case using Parser_consumeWhitespace_mono[of r]
    by (auto simp: ReadByte_def split: if_splits)
next
  case (3 i code s r x r1 b)
  then show ?case using Parser_consumeWhitespace_mono[of r]
    by (auto simp: ReadByte_def split: if_splits)
next
  case (4 i code s r x r1 b)
  then show ?case using Parser_consumeWhitespace_mono[of r]
    by (auto simp: ReadByte_def split: if_splits)
qed

declare Parser_ReadHexString_loop.simps [simp del]

definition Parser_ReadHexString ::
  "decryptor \<Rightarrow> reader \<Rightarrow> (object \<times> error option \<times> reader) outcome" where
  "Parser_ReadHexString decryptor r =
     (case ReadByte (Parser_consumeWhitespace r) of
        (None, r1) \<Rightarrow> Returns (String [], Some ErrorRead, r1)
      | (Some b, r1) \<Rightarrow>
          if b \<noteq> CHR ''<'' then Returns (String [], Some (NewError ''Expected <''), r1)
          else (case Parser_ReadHexString_loop 0 ''00'' [] r1 of
                  (s, r2) \<Rightarrow> then_do (decryptor s) (\<lambda>s1. Returns (String s1, None, r2))))"

section \<open>The object parser of \<^verbatim>\<open>parser.go\<close>\<close>

text \<open>\<^verbatim>\<open>int(number)\<close> on a \<^verbatim>\<open>float64\<close>: the fraction is dropped, towards zero.\<close>

definition trunc :: "rat \<Rightarrow> int" where
  "trunc x = (if 0 \<le> x then \<lfloor>x\<rfloor> else - \<lfloor>- x\<rfloor>)"

text \<open>A Go map from names to objects, as an association list with one pair per key:
  \<^verbatim>\<open>dictionary[key] = value\<close>.\<close>

fun dict_set :: "bytes \<Rightarrow> 'v \<Rightarrow> (bytes \<times> 'v) list \<Rightarrow> (bytes \<times> 'v) list" where
  "dict_set k v [] = [(k, v)]"
| "dict_set k v ((k1, v1) # d) = (if k1 = k then (k, v) # d else (k1, v1) # dict_set k v d)"

text \<open>The branch of \<^verbatim>\<open>ReadObject\<close> for a number or a reference: after the number, the
  offset is saved, an integer and a keyword are read, and unless the keyword is \<^verbatim>\<open>R\<close>
  the reader seeks back to the saved offset.\<close>

definition Parser_ReadObject_number :: "reader \<Rightarrow> object \<times> error option \<times> reader" where
  "Parser_ReadObject_number r =
     (case Parser_ReadNumber r of
        (number, Some err, r1) \<Rightarrow> (Number number, Some err, r1)
      | (number, None, r1) \<Rightarrow>
          (let offset = CurrentOffset r1 in
           case Parser_ReadInt r1 of
             (generation, Some err, r2) \<Rightarrow> (Number number, None, Seek offset r2)
           | (generation, None, r2) \<Rightarrow>
               (case Parser_ReadKeyword r2 of
                  (keyword, r3) \<Rightarrow>
                    if keyword \<noteq> KEYWORD_R then (Number number, None, Seek offset r3)
                    else (Reference (trunc number) generation, None, r3))))"

definition isNumberStart :: "byte \<Rightarrow> bool" where
  "isNumberStart b \<longleftrightarrow>
     (CHR ''0'' \<le> b \<and> b \<le> CHR ''9'') \<or> b = CHR ''+'' \<or> b = CHR ''-'' \<or> b = CHR ''.''"

text \<open>\<^verbatim>\<open>ReadObject\<close>, \<^verbatim>\<open>ReadArray\<close> and \<^verbatim>\<open>ReadDictionary\<close> call each other, and their
  loops end only on an error of the element read; the first argument is the fuel.\<close>

fun Parser_ReadObject ::
    "nat \<Rightarrow> decryptor \<Rightarrow> reader \<Rightarrow> (object \<times> error option \<times> reader) outcome"
  and Parser_ReadArray ::
    "nat \<Rightarrow> decryptor \<Rightarrow> reader \<Rightarrow> (object \<times> error option \<times> reader) outcome"
  and Parser_ReadArray_loop ::
    "nat \<Rightarrow> decryptor \<Rightarrow> object list \<Rightarrow> reader \<Rightarrow> (object list \<times> reader) outcome"
  and Parser_ReadDictionary ::
    "nat \<Rightarrow> decryptor \<Rightarrow> reader \<Rightarrow> (object \<times> error option \<times> reader) outcome"
  and Parser_ReadDictionary_loop ::
    "nat \<Rightarrow> decryptor \<Rightarrow> (bytes \<times> object) list \<Rightarrow> reader
      \<Rightarrow> ((bytes \<times> object) list \<times> reader) outcome"
where
  "Parser_ReadObject 0 decryptor r = Diverges"
| "Parser_ReadObject (Suc n) decryptor r =
     (case Peek 2 (Parser_consumeWhitespace r) of
        (b, r1) \<Rightarrow>
          if b = [] then Returns (Keyword KEYWORD_NULL, Some ErrorRead, r1)
          else if hd b = CHR ''/'' then
            (case Parser_ReadName r1 of (name, err, r2) \<Rightarrow> Returns (Name name, err, r2))
          else if hd b = CHR ''['' then Parser_ReadArray n decryptor r1
          else if hd b = CHR '']'' then
            Returns (Keyword KEYWORD_NULL, Some EndOfArray, Discard 1 r1)
          else if hd b = CHR ''('' then Parser_ReadString decryptor r1
          else if b = ''<<'' then Parser_ReadDictionary n decryptor r1
          else if b = ''>>'' then
            Returns (Keyword KEYWORD_NULL, Some EndOfDictionary, Discard 2 r1)
          else if hd b = CHR ''<'' then Parser_ReadHexString decryptor r1
          else if isNumberStart (hd b) then Returns (Parser_ReadObject_number r1)
          else (case Parser_ReadKeyword r1 of
                  (keyword, r2) \<Rightarrow> Returns (Keyword keyword, None, r2)))"
| "Parser_ReadArray 0 decryptor r = Diverges"
| "Parser_ReadArray (Suc n) decryptor r =
     (case ReadByte (Parser_consumeWhitespace r) of
        (None, r1) \<Rightarrow> Returns (Array [], Some ErrorRead, r1)
      | (Some b, r1) \<Rightarrow>
          if b \<noteq> CHR ''['' then Returns (Array [], Some (NewError ''Expected [''), r1)
          else then_do (Parser_ReadArray_loop n decryptor [] r1)
                 (\<lambda>(array, r2). Returns (Array array, None, r2)))"
| "Parser_ReadArray_loop 0 decryptor array r = Diverges"
| "Parser_ReadArray_loop (Suc n) decryptor array r =
     then_do (Parser_ReadObject n decryptor r)
       (\<lambda>(element, err, r1).
          if err = Some ErrorRead \<or> err = Some EndOfArray then Returns (array, r1)
          else Parser_ReadArray_loop n decryptor (array @ [element]) r1)"
| "Parser_ReadDictionary 0 decryptor r = Diverges"
| "Parser_ReadDictionary (Suc n) decryptor r =
     (case Read 2 (Parser_consumeWhitespace r) of
        (b, r1) \<Rightarrow>
          if b = [] then Returns (Dictionary [], Some ErrorRead, r1)
          else if b \<noteq> ''<<'' then Returns (Dictionary [], Some (NewError ''Expected <<''), r1)
          else then_do (Parser_ReadDictionary_loop n decryptor [] r1)
                 (\<lambda>(dictionary, r2). Returns (Dictionary dictionary, None, r2)))"
| "Parser_ReadDictionary_loop 0 decryptor dictionary r = Diverges"
| "Parser_ReadDictionary_loop (Suc n) decryptor dictionary r =
     then_do (Parser_ReadObject n decryptor r)
       (\<lambda>(name, err, r1).
          if err = Some ErrorRead \<or> err = Some EndOfDictionary then Returns (dictionary, r1)
          else (case name of
                  Name key \<Rightarrow>
                    if err \<noteq> None then Parser_ReadDictionary_loop n decryptor dictionary r1
                    else then_do (Parser_ReadObject n decryptor r1)
                           (\<lambda>(v, err2, r2).
                              if err2 = Some ErrorRead \<or> err2 = Some EndOfDictionary
                              then Returns (dict_set key v dictionary, r2)
                              else Parser_ReadDictionary_loop n decryptor
                                     (dict_set key v dictionary) r2)
                | _ \<Rightarrow> Parser_ReadDictionary_loop n decryptor dictionary r1))"

section \<open>Typed getters\<close>

text \<open>Modelled from the spec: the types \<^verbatim>\<open>Dictionary\<close> and \<^verbatim>\<open>Array\<close> and their typed
  getters are not among the sources. The spec has a getter return the value or an error,
  a missing key and a key with the wrong variant being the same error; \<open>None\<close> is that
  error. A reference is followed by the document, a collaborator of the object layer:
  for the getters here a reference is an entry of another variant.\<close>

definition Dictionary_GetDictionary :: "(bytes \<times> object) list \<Rightarrow> bytes \<Rightarrow> (bytes \<times> object) list option" where
  "Dictionary_GetDictionary d k = (case map_of d k of Some (Dictionary x) \<Rightarrow> Some x | _ \<Rightarrow> None)"

definition Dictionary_GetArray :: "(bytes \<times> object) list \<Rightarrow> bytes \<Rightarrow> object list option" where
  "Dictionary_GetArray d k = (case map_of d k of Some (Array x) \<Rightarrow> Some x | _ \<Rightarrow> None)"

definition Dictionary_GetName :: "(bytes \<times> object) list \<Rightarrow> bytes \<Rightarrow> bytes option" where
  "Dictionary_GetName d k = (case map_of d k of Some (Name x) \<Rightarrow> Some x | _ \<Rightarrow> None)"

definition Dictionary_GetNumber :: "(bytes \<times> object) list \<Rightarrow> bytes \<Rightarrow> rat option" where
  "Dictionary_GetNumber d k = (case map_of d k of Some (Number x) \<Rightarrow> Some x | _ \<Rightarrow> None)"

definition Dictionary_GetInt :: "(bytes \<times> object) list \<Rightarrow> bytes \<Rightarrow> int option" where
  "Dictionary_GetInt d k = (case map_of d k of Some (Number x) \<Rightarrow> Some (trunc x) | _ \<Rightarrow> None)"

definition Dictionary_GetInt64 :: "(bytes \<times> object) list \<Rightarrow> bytes \<Rightarrow> int option" where
  "Dictionary_GetInt64 d k = Dictionary_GetInt d k"

definition Dictionary_GetBytes :: "(bytes \<times> object) list \<Rightarrow> bytes \<Rightarrow> bytes option" where
  "Dictionary_GetBytes d k = (case map_of d k of Some (String x) \<Rightarrow> Some x | _ \<Rightarrow> None)"

definition Dictionary_GetBool :: "(bytes \<times> object) list \<Rightarrow> bytes \<Rightarrow> bool option" where
  "Dictionary_GetBool d k =
     (case map_of d k of
        Some (Keyword KEYWORD_TRUE) \<Rightarrow> Some True
      | Some (Keyword KEYWORD_FALSE) \<Rightarrow> Some False
      | _ \<Rightarrow> None)"

definition Array_at :: "object list \<Rightarrow> int \<Rightarrow> object option" where
  "Array_at a i = (if 0 \<le> i \<and> i < int (length a) then Some (a ! nat i) else None)"

definition Array_GetInt :: "object list \<Rightarrow> int \<Rightarrow> int option" where
  "Array_GetInt a i = (case Array_at a i of Some (Number x) \<Rightarrow> Some (trunc x) | _ \<Rightarrow> None)"

definition Array_GetName :: "object list \<Rightarrow> int \<Rightarrow> bytes option" where
  "Array_GetName a i = (case Array_at a i of Some (Name x) \<Rightarrow> Some x | _ \<Rightarrow> None)"

definition Array_GetDictionary :: "object list \<Rightarrow> int \<Rightarrow> (bytes \<times> object) list option" where
  "Array_GetDictionary a i = (case Array_at a i of Some (Dictionary x) \<Rightarrow> Some x | _ \<Rightarrow> None)"

definition Array_GetBytes :: "object list \<Rightarrow> int \<Rightarrow> bytes option" where
  "Array_GetBytes a i = (case Array_at a i of Some (String x) \<Rightarrow> Some x | _ \<Rightarrow> None)"

section \<open>The security handler of \<^verbatim>\<open>encryption.go\<close>\<close>

text \<open>The ciphers come from Go's library and are parameters of the model:
  \<^verbatim>\<open>md5\<close> (the sum of a message), \<^verbatim>\<open>rc4\<close> (\<^verbatim>\<open>XORKeyStream\<close> of a fresh cipher on a key),
  and \<^verbatim>\<open>aes\<close> with \<^verbatim>\<open>cipher.NewCBCDecrypter\<close> (\<^verbatim>\<open>CryptBlocks\<close> on a key, an
  initialization vector and whole blocks).\<close>

record crypto_lib =
  md5_Sum :: "bytes \<Rightarrow> bytes"
  rc4_XORKeyStream :: "bytes \<Rightarrow> bytes \<Rightarrow> bytes"
  cbc_CryptBlocks :: "bytes \<Rightarrow> bytes \<Rightarrow> bytes \<Rightarrow> bytes"

definition padding_string :: bytes where
  "padding_string =
     [CHR 0x28, CHR 0xBF, CHR 0x4E, CHR 0x5E, CHR 0x4E, CHR 0x75, CHR 0x8A, CHR 0x41,
      CHR 0x64, CHR 0x00, CHR 0x4E, CHR 0x56, CHR 0xFF, CHR 0xFA, CHR 0x01, CHR 0x08,
      CHR 0x2E, CHR 0x2E, CHR 0x00, CHR 0xB6, CHR 0xD0, CHR 0x68, CHR 0x3E, CHR 0x80,
      CHR 0x2F, CHR 0x0C, CHR 0xA9, CHR 0xFE, CHR 0x64, CHR 0x53, CHR 0x69, CHR 0x7A]"

datatype crypt_filter = CryptFilterNone | CryptFilterAES bytes | CryptFilterRC4 bytes

text \<open>\<^verbatim>\<open>binary.LittleEndian.PutUint32\<close> into a slice of four bytes.\<close>

definition PutUint32 :: "32 word \<Rightarrow> bytes" where
  "PutUint32 v =
     [char_of (unat v), char_of (unat (drop_bit 8 v)),
      char_of (unat (drop_bit 16 v)), char_of (unat (drop_bit 24 v))]"

text \<open>\<^verbatim>\<open>uint32(n)\<close> of an \<^verbatim>\<open>int\<close>.\<close>

definition uint32 :: "int \<Rightarrow> 32 word" where
  "uint32 n = word_of_int n"

definition CryptFilterAES_Init :: "crypto_lib \<Rightarrow> bytes \<Rightarrow> int \<Rightarrow> int \<Rightarrow> crypt_filter" where
  "CryptFilterAES_Init lib encryption_key n g =
     (let salt = encryption_key @ take 3 (PutUint32 (uint32 n)) @ take 2 (PutUint32 (uint32 g))
                   @ ''sAlT'';
          key = md5_Sum lib salt;
          l = (if 16 < length encryption_key + 5 then 16 else length encryption_key + 5)
      in CryptFilterAES (take l key))"

definition CryptFilterRC4_Init :: "crypto_lib \<Rightarrow> bytes \<Rightarrow> int \<Rightarrow> int \<Rightarrow> crypt_filter" where
  "CryptFilterRC4_Init lib encryption_key n g =
     (let salt = encryption_key @ take 3 (PutUint32 (uint32 n)) @ take 2 (PutUint32 (uint32 g));
          key = md5_Sum lib salt;
          l = (if 16 < length encryption_key + 5 then 16 else length encryption_key + 5)
      in CryptFilterRC4 (take l key))"

definition CryptFilter_Init :: "crypto_lib \<Rightarrow> crypt_filter \<Rightarrow> int \<Rightarrow> int \<Rightarrow> crypt_filter" where
  "CryptFilter_Init lib c n g =
     (case c of
        CryptFilterNone \<Rightarrow> CryptFilterNone
      | CryptFilterAES k \<Rightarrow> CryptFilterAES_Init lib k n g
      | CryptFilterRC4 k \<Rightarrow> CryptFilterRC4_Init lib k n g)"

text \<open>\<^verbatim>\<open>aes.NewCipher\<close> takes keys of 16, 24 or 32 bytes; for another key it returns no
  block and an error, which \<^verbatim>\<open>Decrypt\<close> drops, and \<^verbatim>\<open>cipher.NewCBCDecrypter\<close> then panics
  on the missing block. \<^verbatim>\<open>CryptBlocks\<close> panics unless its input is whole blocks.\<close>

definition CryptFilterAES_Decrypt :: "crypto_lib \<Rightarrow> bytes \<Rightarrow> bytes \<Rightarrow> bytes outcome" where
  "CryptFilterAES_Decrypt lib encryption_key d =
     (if length d \<le> 16 then Returns []
      else if length encryption_key \<noteq> 16 \<and> length encryption_key \<noteq> 24
              \<and> length encryption_key \<noteq> 32 then Panics
      else if length (drop 16 d) mod 16 \<noteq> 0 then Panics
      else Returns (cbc_CryptBlocks lib encryption_key (take 16 d) (drop 16 d)))"

text \<open>\<^verbatim>\<open>rc4.NewCipher\<close> takes keys of 1 to 256 bytes; for another key it returns no cipher
  and an error, which the callers drop, and \<^verbatim>\<open>XORKeyStream\<close> then panics on the missing
  cipher, unless there is nothing to encrypt.\<close>

definition rc4_apply :: "crypto_lib \<Rightarrow> bytes \<Rightarrow> bytes \<Rightarrow> bytes outcome" where
  "rc4_apply lib key d =
     (if d = [] then Returns []
      else if key = [] \<or> 256 < length key then Panics
      else Returns (rc4_XORKeyStream lib key d))"

definition CryptFilterRC4_Decrypt :: "crypto_lib \<Rightarrow> bytes \<Rightarrow> bytes \<Rightarrow> bytes outcome" where
  "CryptFilterRC4_Decrypt lib encryption_key d = rc4_apply lib encryption_key d"

definition CryptFilter_Decrypt :: "crypto_lib \<Rightarrow> crypt_filter \<Rightarrow> decryptor" where
  "CryptFilter_Decrypt lib c d =
     (case c of
        CryptFilterNone \<Rightarrow> Returns d
      | CryptFilterAES k \<Rightarrow> CryptFilterAES_Decrypt lib k d
      | CryptFilterRC4 k \<Rightarrow> CryptFilterRC4_Decrypt lib k d)"

section \<open>Streams and indirect objects in \<^verbatim>\<open>parser.go\<close>\<close>

text \<open>The first loop of \<^verbatim>\<open>ReadStream\<close> (the same text in both files): it reads to the end
  of the line of the \<^verbatim>\<open>stream\<close> keyword. \<open>False\<close>: the file ended there, and the function
  returns the empty stream at once.\<close>

function readStream_eol :: "reader \<Rightarrow> bool \<times> reader" where
  "readStream_eol r =
     (case ReadByte r of
        (None, r1) \<Rightarrow> (False, r1)
      | (Some b, r1) \<Rightarrow>
          if b = CHR 0x0A then (True, r1)
          else if b = CHR 0x0D then
            (case ReadByte r1 of
               (None, r2) \<Rightarrow> (False, r2)
             | (Some b2, r2) \<Rightarrow> (True, if b2 \<noteq> CHR 0x0A then UnreadByte r2 else r2))
          else readStream_eol r1)"
  by pat_completeness auto
termination
  by (relation "measure (\<lambda>r. length (data r) - pos r)") (auto dest: ReadByte_measure[OF sym])

declare readStream_eol.simps [simp del]

text \<open>The end of line that is cut off the stream data when the marker is found.\<close>

definition truncate_eol :: "bytes \<Rightarrow> bytes" where
  "truncate_eol stream_data =
     (let l = length stream_data in
      if 1 \<le> l \<and> stream_data ! (l - 1) = CHR 0x0A then
        (if 2 \<le> l \<and> stream_data ! (l - 2) = CHR 0x0D then take (l - 2) stream_data
         else take (l - 1) stream_data)
      else if 1 \<le> l \<and> stream_data ! (l - 1) = CHR 0x0D then take (l - 1) stream_data
      else stream_data)"

text \<open>The second loop (the same text in both files): \<open>end_buff\<close> is compared with the
  marker; otherwise its first byte moves to the stream data and the next byte of the file
  is appended to it.\<close>

function readStream_loop :: "bytes \<Rightarrow> bytes \<Rightarrow> reader \<Rightarrow> bytes \<times> reader" where
  "readStream_loop stream_data end_buff r =
     (if end_buff = ''endstream'' then (truncate_eol stream_data, r)
      else (case end_buff of
              [] \<Rightarrow> (stream_data, r)
            | b # rest \<Rightarrow>
                (case ReadByte r of
                   (None, r1) \<Rightarrow> (stream_data @ [b] @ rest, r1)
                 | (Some c, r1) \<Rightarrow> readStream_loop (stream_data @ [b]) (rest @ [c]) r1)))"
  by pat_completeness auto
termination
  by (relation "measure (\<lambda>(sd, eb, r). length (data r) - pos r)")
     (auto dest: ReadByte_measure[OF sym])

declare readStream_loop.simps [simp del]

text \<open>The stream data before decryption and decoding; \<open>None\<close> when the function has
  returned in its first loop. The window starts with what one \<^verbatim>\<open>Read\<close> into nine bytes
  delivers.\<close>

definition readStream_data :: "reader \<Rightarrow> bytes option \<times> reader" where
  "readStream_data r =
     (case readStream_eol r of
        (False, r1) \<Rightarrow> (None, r1)
      | (True, r1) \<Rightarrow>
          (case Read 9 r1 of
             (buff, r2) \<Rightarrow>
               (case readStream_loop [] buff r2 of (sd, r3) \<Rightarrow> (Some sd, r3))))"

text \<open>\<^verbatim>\<open>DecodeStream\<close> is the collaborator that applies one filter: a parameter of the
  model, giving the bytes it returns and whether it failed. A filter that is no name
  counts as the empty name and parameters that are no dictionary as the empty one (the
  zero values of the getters' results).\<close>

type_synonym decoder = "bytes \<Rightarrow> bytes \<Rightarrow> (bytes \<times> object) list \<Rightarrow> bytes \<times> bool"

fun Parser_decode :: "decoder \<Rightarrow> object list \<Rightarrow> object list \<Rightarrow> nat \<Rightarrow> nat \<Rightarrow> bytes \<Rightarrow> bytes" where
  "Parser_decode DecodeStream filter_list decode_parms_list 0 i stream_data_bytes =
     stream_data_bytes"
| "Parser_decode DecodeStream filter_list decode_parms_list (Suc k) i stream_data_bytes =
     (case DecodeStream
             (case Array_GetName filter_list (int i) of Some f \<Rightarrow> f | None \<Rightarrow> [])
             stream_data_bytes
             (case Array_GetDictionary decode_parms_list (int i) of Some d \<Rightarrow> d | None \<Rightarrow> [])
      of (decoded_bytes, failed) \<Rightarrow>
           if failed then stream_data_bytes
           else Parser_decode DecodeStream filter_list decode_parms_list k (i + 1) decoded_bytes)"

definition Parser_ReadStream ::
  "decoder \<Rightarrow> decryptor \<Rightarrow> object list \<Rightarrow> object list \<Rightarrow> reader \<Rightarrow> (bytes \<times> reader) outcome" where
  "Parser_ReadStream DecodeStream decryptor filter_list decode_parms_list r =
     (case readStream_data r of
        (None, r1) \<Rightarrow> Returns ([], r1)
      | (Some stream_data, r1) \<Rightarrow>
          then_do (decryptor stream_data)
            (\<lambda>stream_data_bytes.
               Returns (Parser_decode DecodeStream filter_list decode_parms_list
                          (length filter_list) 0 stream_data_bytes, r1)))"

text \<open>Modelled from the spec: \<^verbatim>\<open>xref.go\<close> has no \<^verbatim>\<open>IsEncrypted\<close> and \<^verbatim>\<open>IsEmbeddedFile\<close>,
  which \<^verbatim>\<open>parser.go\<close> uses, and the constants of the entry types are not among the
  sources. The spec has \<^verbatim>\<open>is_encrypted\<close> true and \<^verbatim>\<open>is_embedded_file\<close> false by default,
  and the types 0 (free), 1 (in use) and 2 (compressed) of an xref stream, which the
  program stores as it reads them.\<close>

record XrefEntry =
  Offset :: int
  Generation :: int
  Type :: int
  IsEncrypted :: bool
  IsEmbeddedFile :: bool

definition XrefTypeFreeObject :: int where
  "XrefTypeFreeObject = 0"

definition XrefTypeIndirectObject :: int where
  "XrefTypeIndirectObject = 1"

definition NewXrefEntry :: "int \<Rightarrow> int \<Rightarrow> int \<Rightarrow> XrefEntry" where
  "NewXrefEntry offset generation type_value =
     \<lparr>Offset = offset, Generation = generation, Type = type_value,
      IsEncrypted = True, IsEmbeddedFile = False\<rparr>"

record IndirectObject =
  io_Number :: int
  io_Generation :: int
  io_Value :: object
  io_Stream :: "bytes option"

definition NewIndirectObject :: "int \<Rightarrow> IndirectObject" where
  "NewIndirectObject number =
     \<lparr>io_Number = number, io_Generation = 0, io_Value = Keyword KEYWORD_NULL,
      io_Stream = None\<rparr>"

record SecurityHandler =
  sh_v :: int
  sh_length :: int
  sh_r :: int
  sh_o :: bytes
  sh_u :: bytes
  sh_p :: bytes
  sh_encrypt_meta_data :: bool
  sh_id :: bytes
  sh_stream_filter :: crypt_filter
  sh_string_filter :: crypt_filter
  sh_file_filter :: crypt_filter
  sh_crypt_filters :: "(bytes \<times> crypt_filter) list"
  sh_encryption_key :: bytes

record parser =
  rd :: reader
  Xref :: "int \<Rightarrow> XrefEntry option"
  trailer :: "(bytes \<times> object) list"
  security_handler :: "SecurityHandler option"

definition Parser_ReadObjectHeader :: "reader \<Rightarrow> int \<times> int \<times> error option \<times> reader" where
  "Parser_ReadObjectHeader r =
     (case Parser_ReadInt r of
        (number, Some err, r1) \<Rightarrow> (number, 0, Some err, r1)
      | (number, None, r1) \<Rightarrow>
          (case Parser_ReadInt r1 of
             (generation, Some err, r2) \<Rightarrow> (number, generation, Some err, r2)
           | (generation, None, r2) \<Rightarrow>
               (case Parser_ReadKeyword r2 of
                  (keyword, r3) \<Rightarrow>
                    if keyword \<noteq> KEYWORD_OBJ
                    then (number, generation, Some (NewError ''Expected obj keyword''), r3)
                    else (number, generation, None, r3))))"

text \<open>The lists of decode filters and of their parameters that \<^verbatim>\<open>GetObject\<close> builds from
  the stream dictionary.\<close>

definition Parser_filter_list :: "(bytes \<times> object) list \<Rightarrow> object list" where
  "Parser_filter_list d =
     (case Dictionary_GetArray d ''Filter'' of
        Some a \<Rightarrow> a
      | None \<Rightarrow> (case Dictionary_GetName d ''Filter'' of Some f \<Rightarrow> [Name f] | None \<Rightarrow> []))"

definition Parser_decode_parms_list :: "(bytes \<times> object) list \<Rightarrow> object list" where
  "Parser_decode_parms_list d =
     (case Dictionary_GetArray d ''DecodeParms'' of
        Some a \<Rightarrow> a
      | None \<Rightarrow> (case Dictionary_GetDictionary d ''DecodeParms'' of
                   Some dp \<Rightarrow> [Dictionary dp] | None \<Rightarrow> []))"

text \<open>The crypt filter of a stream, and the two lists once a leading \<^verbatim>\<open>Crypt\<close> filter is
  taken off them.\<close>

definition Parser_stream_filter ::
  "SecurityHandler option \<Rightarrow> XrefEntry \<Rightarrow> object list \<Rightarrow> object list
     \<Rightarrow> crypt_filter \<times> object list \<times> object list" where
  "Parser_stream_filter handler xref_entry filter_list decode_parms_list =
     (case handler of
        None \<Rightarrow> (CryptFilterNone, filter_list, decode_parms_list)
      | Some sh \<Rightarrow>
          if \<not> IsEncrypted xref_entry then (CryptFilterNone, filter_list, decode_parms_list)
          else
            (let crypt_filter = (if IsEmbeddedFile xref_entry then sh_file_filter sh
                                 else sh_stream_filter sh)
             in if filter_list \<noteq> [] \<and> Array_GetName filter_list 0 = Some ''Crypt'' then
                  (let decode_parms = (case Array_GetDictionary decode_parms_list 0 of
                                         Some dp \<Rightarrow> dp | None \<Rightarrow> []);
                       filter_name = (case Dictionary_GetName decode_parms ''Name'' of
                                        Some nm \<Rightarrow> nm | None \<Rightarrow> ''Identity'')
                   in ((case map_of (sh_crypt_filters sh) filter_name of
                          Some cf \<Rightarrow> cf | None \<Rightarrow> crypt_filter),
                       tl filter_list,
                       if decode_parms_list \<noteq> [] then tl decode_parms_list
                       else decode_parms_list))
                else (crypt_filter, filter_list, decode_parms_list)))"

text \<open>\<^verbatim>\<open>GetObject\<close>. \<^verbatim>\<open>NewDecryptor(n, g)\<close> of a crypt filter is the \<^verbatim>\<open>Init(n, g)\<close> of
  \<^verbatim>\<open>encryption.go\<close>; the fuel is that of \<^verbatim>\<open>ReadObject\<close>.\<close>

definition Parser_GetObject ::
  "crypto_lib \<Rightarrow> decoder \<Rightarrow> nat \<Rightarrow> int \<Rightarrow> parser \<Rightarrow> (IndirectObject \<times> parser) outcome" where
  "Parser_GetObject lib DecodeStream fuel number p =
     (case Xref p number of
        None \<Rightarrow> Returns (NewIndirectObject number, p)
      | Some xref_entry \<Rightarrow>
          if Type xref_entry \<noteq> XrefTypeIndirectObject then Returns (NewIndirectObject number, p)
          else
            (let object = (NewIndirectObject number)\<lparr>io_Generation := Generation xref_entry\<rparr>;
                 r2 = snd (snd (snd (Parser_ReadObjectHeader (Seek (Offset xref_entry) (rd p)))));
                 string_filter = (case security_handler p of
                                    None \<Rightarrow> CryptFilterNone
                                  | Some sh \<Rightarrow> sh_string_filter sh);
                 string_decryptor =
                   CryptFilter_Decrypt lib
                     (CryptFilter_Init lib string_filter number (io_Generation object))
             in then_do (Parser_ReadObject fuel string_decryptor r2)
                  (\<lambda>(v, err, r3).
                     case Parser_ReadKeyword r3 of
                       (keyword, r4) \<Rightarrow>
                         if keyword \<noteq> KEYWORD_STREAM
                         then Returns (object\<lparr>io_Value := v\<rparr>, p\<lparr>rd := r4\<rparr>)
                         else
                           (let d = (case v of Dictionary d \<Rightarrow> d | _ \<Rightarrow> []) in
                            case Parser_stream_filter (security_handler p) xref_entry
                                   (Parser_filter_list d) (Parser_decode_parms_list d)
                            of (crypt_filter, filter_list, decode_parms_list) \<Rightarrow>
                                 then_do
                                   (Parser_ReadStream DecodeStream
                                      (CryptFilter_Decrypt lib
                                         (CryptFilter_Init lib crypt_filter number
                                            (Generation xref_entry)))
                                      filter_list decode_parms_list r4)
                                   (\<lambda>(stream, r5).
                                      Returns (object\<lparr>io_Value := v, io_Stream := Some stream\<rparr>,
                                               p\<lparr>rd := r5\<rparr>))))))"

section \<open>The xref loader of \<^verbatim>\<open>parser.go\<close>\<close>

lemma Parser_consumeWhitespace_le:
  "data (Parser_consumeWhitespace r) = data r \<and> pos r \<le> pos (Parser_consumeWhitespace r)"
  using Parser_consumeWhitespace_mono[of r] by auto

lemma readInt64_loop_mono:
  "data (snd (readInt64_loop v r)) = data r \<and>
   (\<forall>n. n \<le> pos r \<longrightarrow> n \<le> pos (snd (readInt64_loop v r)))"
proof (induction v r rule: readInt64_loop.induct)
  case (1 v r)
  show ?case using 1
    by (auto simp: readInt64_loop.simps[of v r] ReadByte_def UnreadByte_def split: if_splits)
qed

lemma readInt64_loop_le:
  "readInt64_loop v r = (v1, r1) \<Longrightarrow> data r1 = data r \<and> pos r \<le> pos r1"
  using readInt64_loop_mono[of v r] by auto

lemma Parser_ReadInt64_mono:
  assumes "Parser_ReadInt64 r = (v, None, r1)"
  shows "data r1 = data r \<and> pos r < pos r1 \<and> pos r < length (data r)"
proof -
  obtain x ra where rb: "ReadByte (Parser_consumeWhitespace r) = (x, ra)"
    by (cases "ReadByte (Parser_consumeWhitespace r)")
  with assms obtain b where x: "x = Some b"
    by (cases x) (auto simp: Parser_ReadInt64_def)
  from rb x have ra: "data ra = data (Parser_consumeWhitespace r)"
      "pos ra = Suc (pos (Parser_consumeWhitespace r))"
      "pos (Parser_consumeWhitespace r) < length (data (Parser_consumeWhitespace r))"
    by (auto simp: ReadByte_def split: if_splits)
  from assms rb x obtain w where "readInt64_loop (0 * 10 + of_nat (digit b)) ra = (w, r1)"
    by (auto simp: Parser_ReadInt64_def split: if_splits prod.splits)
  from readInt64_loop_le[OF this] ra Parser_consumeWhitespace_le[of r] show ?thesis
    by auto
qed

lemma Parser_ReadKeyword_loop_mono:
  "data (snd (Parser_ReadKeyword_loop kw r)) = data r \<and>
   (\<forall>n. n \<le> pos r \<longrightarrow> n \<le> pos (snd (Parser_ReadKeyword_loop kw r)))"
proof (induction kw r rule: Parser_ReadKeyword_loop.induct)
  case (1 kw r)
  show ?case using 1
    by (auto simp: Parser_ReadKeyword_loop.simps[of kw r] ReadByte_def UnreadByte_def
        split: if_splits)
qed

lemma Parser_ReadKeyword_mono:
  assumes "Parser_ReadKeyword r = (k, r1)"
  shows "data r1 = data r \<and> pos r \<le> pos r1"
proof -
  from assms obtain kw where "Parser_ReadKeyword_loop [] (Parser_consumeWhitespace r) = (kw, r1)"
    by (auto simp: Parser_ReadKeyword_def split: prod.splits)
  with Parser_ReadKeyword_loop_mono[of "[]" "Parser_consumeWhitespace r"]
    Parser_consumeWhitespace_le[of r] show ?thesis
    by auto
qed

text \<open>The entries of one subsection of an xref table, collected in the map \<open>xrefs\<close> of
  \<^verbatim>\<open>LoadXrefTable\<close>.\<close>

function Parser_LoadXrefTable_entries ::
  "int \<Rightarrow> int \<Rightarrow> int \<Rightarrow> (int \<Rightarrow> XrefEntry option) \<Rightarrow> reader
     \<Rightarrow> error option \<times> (int \<Rightarrow> XrefEntry option) \<times> reader" where
  "Parser_LoadXrefTable_entries i subsection_length subsection_start xrefs r =
     (if i < subsection_length then
        (case Parser_ReadInt64 r of
           (offset, Some err, r1) \<Rightarrow> (Some err, xrefs, r1)
         | (offset, None, r1) \<Rightarrow>
             (case Parser_ReadInt r1 of
                (generation, Some err, r2) \<Rightarrow> (Some err, xrefs, r2)
              | (generation, None, r2) \<Rightarrow>
                  (case Parser_ReadKeyword r2 of
                     (flag, r3) \<Rightarrow>
                       Parser_LoadXrefTable_entries (i + 1) subsection_length subsection_start
                         (xrefs(subsection_start + i \<mapsto>
                            NewXrefEntry offset generation
                              (if flag = KEYWORD_N then XrefTypeIndirectObject
                               else XrefTypeFreeObject)))
                         r3)))
      else (None, xrefs, r))"
  by pat_completeness auto
termination
  by (relation "measure (\<lambda>(i, l, s, x, r). nat (l - i))") auto

declare Parser_LoadXrefTable_entries.simps [simp del]

lemma Parser_LoadXrefTable_entries_mono:
  "Parser_LoadXrefTable_entries i l s x r = (None, x1, r1) \<Longrightarrow>
     data r1 = data r \<and> pos r \<le> pos r1"
proof (induction i l s x r arbitrary: x1 r1 rule: Parser_LoadXrefTable_entries.induct)
  case (1 i l s x r)
  show ?case
  proof (cases "i < l")
    case False
    with "1.prems" show ?thesis by (simp add: Parser_LoadXrefTable_entries.simps[of i l s x r])
  next
    case True
    obtain off e1 ra where a: "Parser_ReadInt64 r = (off, e1, ra)" by (cases "Parser_ReadInt64 r")
    obtain g e2 rb where b: "Parser_ReadInt ra = (g, e2, rb)" by (cases "Parser_ReadInt ra")
    obtain f rc where c: "Parser_ReadKeyword rb = (f, rc)" by (cases "Parser_ReadKeyword rb")
    from "1.prems" True a b c have e: "e1 = None" "e2 = None"
      by (auto simp: Parser_LoadXrefTable_entries.simps[of i l s x r] split: option.splits)
    from "1.prems" True a b c e
    have "Parser_LoadXrefTable_entries (i + 1) l s
            (x(s + i \<mapsto> NewXrefEntry off g
               (if f = KEYWORD_N then XrefTypeIndirectObject else XrefTypeFreeObject))) rc
          = (None, x1, r1)"
      by (simp add: Parser_LoadXrefTable_entries.simps[of i l s x r])
    with "1.IH"[OF True a[symmetric] refl _ b[symmetric] refl _ c[symmetric]] e
    have "data r1 = data rc \<and> pos rc \<le> pos r1"
      by blast
    moreover from a e have "data ra = data r \<and> pos r < pos ra"
      by (auto dest: Parser_ReadInt64_mono)
    moreover from b e have "data rb = data ra \<and> pos ra < pos rb"
      by (auto simp: Parser_ReadInt_def dest: Parser_ReadInt64_mono)
    moreover from c have "data rc = data rb \<and> pos rb \<le> pos rc"
      by (rule Parser_ReadKeyword_mono)
    ultimately show ?thesis
      by auto
  qed
qed

text \<open>The subsections of an xref table, to the keyword \<^verbatim>\<open>trailer\<close>.\<close>

function Parser_LoadXrefTable_sections ::
  "(int \<Rightarrow> XrefEntry option) \<Rightarrow> reader
     \<Rightarrow> error option \<times> (int \<Rightarrow> XrefEntry option) \<times> reader" where
  "Parser_LoadXrefTable_sections xrefs r =
     (case Parser_ReadInt r of
        (subsection_start, Some err, r1) \<Rightarrow>
          (case Parser_ReadKeyword r1 of
             (keyword, r2) \<Rightarrow>
               if keyword = KEYWORD_TRAILER then (None, xrefs, r2)
               else (Some (NewError ''Expected int or trailer keyword''), xrefs, r2))
      | (subsection_start, None, r1) \<Rightarrow>
          (case Parser_ReadInt r1 of
             (subsection_length, Some err, r2) \<Rightarrow> (Some err, xrefs, r2)
           | (subsection_length, None, r2) \<Rightarrow>
               (case Parser_LoadXrefTable_entries 0 subsection_length subsection_start xrefs r2 of
                  (Some err, xrefs1, r3) \<Rightarrow> (Some err, xrefs1, r3)
                | (None, xrefs1, r3) \<Rightarrow> Parser_LoadXrefTable_sections xrefs1 r3)))"
  by pat_completeness auto
termination
proof (relation "measure (\<lambda>(x, r). length (data r) - pos r)", goal_cases)
  case 1
  show ?case by simp
next
  case (2 xrefs r st y e1 r1 l yb e2 r2 e3 yd x1 r3)
  then have a: "Parser_ReadInt64 r = (st, None, r1)"
    and b: "Parser_ReadInt64 r1 = (l, None, r2)"
    and c: "Parser_LoadXrefTable_entries 0 l st xrefs r2 = (None, x1, r3)"
    by (simp_all add: Parser_ReadInt_def)
  from Parser_ReadInt64_mono[OF a] Parser_ReadInt64_mono[OF b]
    Parser_LoadXrefTable_entries_mono[OF c]
  show ?case by auto
qed

declare Parser_LoadXrefTable_sections.simps [simp del]

text \<open>Modelled from the spec: \<^verbatim>\<open>ReadInt(reader, width)\<close> on the bytes of an xref stream
  is not among the sources. The spec has the fields big-endian and unsigned and a field
  of width zero default to 0; the call fails when fewer bytes are left. (The spec's
  default 1 for a type of width zero has no place in this call, which is the same for
  every field.)\<close>

definition ReadInt_width :: "bytes \<Rightarrow> int \<Rightarrow> int option \<times> bytes" where
  "ReadInt_width d width =
     (if width \<le> 0 then (Some 0, d)
      else if length d < nat width then (None, [])
      else (Some (foldl (\<lambda>v b. v * 256 + int (of_char b)) 0 (take (nat width) d)),
            drop (nat width) d))"

text \<open>The entries of one subsection of an xref stream; \<open>store\<close> is what the loop does
  with an entry (each variant has its own).\<close>

function readXrefStream_entries ::
  "((int \<Rightarrow> XrefEntry option) \<Rightarrow> int \<Rightarrow> XrefEntry \<Rightarrow> (int \<Rightarrow> XrefEntry option))
     \<Rightarrow> int \<Rightarrow> int \<Rightarrow> int \<Rightarrow> int \<Rightarrow> int \<Rightarrow> int
     \<Rightarrow> (int \<Rightarrow> XrefEntry option) \<Rightarrow> bytes
     \<Rightarrow> error option \<times> (int \<Rightarrow> XrefEntry option) \<times> bytes" where
  "readXrefStream_entries store j subsection_length subsection_start
       type_width offset_width generation_width xref d =
     (if j < subsection_length then
        (case ReadInt_width d type_width of
           (None, d1) \<Rightarrow> (Some EOF, xref, d1)
         | (Some xref_type, d1) \<Rightarrow>
             (case ReadInt_width d1 offset_width of
                (None, d2) \<Rightarrow> (Some EOF, xref, d2)
              | (Some offset, d2) \<Rightarrow>
                  (case ReadInt_width d2 generation_width of
                     (None, d3) \<Rightarrow> (Some EOF, xref, d3)
                   | (Some generation, d3) \<Rightarrow>
                       readXrefStream_entries store (j + 1) subsection_length subsection_start
                         type_width offset_width generation_width
                         (store xref (subsection_start + j)
                            (NewXrefEntry offset generation xref_type))
                         d3)))
      else (None, xref, d))"
  by pat_completeness auto
termination
  by (relation "measure (\<lambda>(st, j, l, s, tw, ow, gw, x, d). nat (l - j))") auto

declare readXrefStream_entries.simps [simp del]

text \<open>The subsections of an xref stream: the pairs of \<^verbatim>\<open>Index\<close>.\<close>

function readXrefStream_sections ::
  "((int \<Rightarrow> XrefEntry option) \<Rightarrow> int \<Rightarrow> XrefEntry \<Rightarrow> (int \<Rightarrow> XrefEntry option))
     \<Rightarrow> object list \<Rightarrow> nat \<Rightarrow> int \<Rightarrow> int \<Rightarrow> int
     \<Rightarrow> (int \<Rightarrow> XrefEntry option) \<Rightarrow> bytes
     \<Rightarrow> error option \<times> (int \<Rightarrow> XrefEntry option)" where
  "readXrefStream_sections store index i type_width offset_width generation_width xref d =
     (if i + 1 < length index then
        (case Array_GetInt index (int i) of
           None \<Rightarrow> (Some (NewError ''Expected int''), xref)
         | Some subsection_start \<Rightarrow>
             (case Array_GetInt index (int i + 1) of
                None \<Rightarrow> (Some (NewError ''Expected int''), xref)
              | Some subsection_length \<Rightarrow>
                  (case readXrefStream_entries store 0 subsection_length subsection_start
                          type_width offset_width generation_width xref d of
                     (Some err, xref1, d1) \<Rightarrow> (Some err, xref1)
                   | (None, xref1, d1) \<Rightarrow>
                       readXrefStream_sections store index (i + 2)
                         type_width offset_width generation_width xref1 d1)))
      else (None, xref))"
  by pat_completeness auto
termination
  by (relation "measure (\<lambda>(st, index, i, tw, ow, gw, x, d). length index - i)") auto

declare readXrefStream_sections.simps [simp del]

text \<open>What both variants do with the dictionary of an xref stream once its trailer is
  merged: \<^verbatim>\<open>Index\<close> (by default \<^verbatim>\<open>[0 Size]\<close>), the widths \<^verbatim>\<open>W\<close>, then the subsections.\<close>

definition readXrefStream_body ::
  "((int \<Rightarrow> XrefEntry option) \<Rightarrow> int \<Rightarrow> XrefEntry \<Rightarrow> (int \<Rightarrow> XrefEntry option))
     \<Rightarrow> (bytes \<times> object) list \<Rightarrow> bytes \<Rightarrow> (int \<Rightarrow> XrefEntry option)
     \<Rightarrow> error option \<times> (int \<Rightarrow> XrefEntry option)" where
  "readXrefStream_body store trailer_dict d xref =
     (case (case Dictionary_GetArray trailer_dict ''Index'' of
              Some a \<Rightarrow> Some a
            | None \<Rightarrow> (case Dictionary_GetNumber trailer_dict ''Size'' of
                         Some sz \<Rightarrow> Some [Number 0, Number sz]
                       | None \<Rightarrow> None)) of
        None \<Rightarrow> (Some (NewError ''Size not found''), xref)
      | Some index \<Rightarrow>
          (case Dictionary_GetArray trailer_dict ''W'' of
             None \<Rightarrow> (Some (NewError ''W not found''), xref)
           | Some width \<Rightarrow>
               (case Array_GetInt width 0 of
                  None \<Rightarrow> (Some (NewError ''Expected int''), xref)
                | Some type_width \<Rightarrow>
                    (case Array_GetInt width 1 of
                       None \<Rightarrow> (Some (NewError ''Expected int''), xref)
                     | Some offset_width \<Rightarrow>
                         (case Array_GetInt width 2 of
                            None \<Rightarrow> (Some (NewError ''Expected int''), xref)
                          | Some generation_width \<Rightarrow>
                              readXrefStream_sections store index 0
                                type_width offset_width generation_width xref d)))))"

text \<open>\<^verbatim>\<open>parser.go\<close> stores an entry whatever the map holds (lines 311 and 420).\<close>

definition Parser_store ::
  "(int \<Rightarrow> XrefEntry option) \<Rightarrow> int \<Rightarrow> XrefEntry \<Rightarrow> (int \<Rightarrow> XrefEntry option)" where
  "Parser_store xref object_number entry = xref(object_number \<mapsto> entry)"

text \<open>The merge of a trailer in \<^verbatim>\<open>parser.go\<close>: every key is overwritten.\<close>

definition Parser_merge_trailer ::
  "(bytes \<times> object) list \<Rightarrow> (bytes \<times> object) list \<Rightarrow> (bytes \<times> object) list" where
  "Parser_merge_trailer trailer_dict t = foldl (\<lambda>acc (k, v). dict_set k v acc) t trailer_dict"

text \<open>\<^verbatim>\<open>LoadXref\<close>, \<^verbatim>\<open>LoadXrefTable\<close> and \<^verbatim>\<open>LoadXrefStream\<close>. The set \<open>offsets\<close> is the Go map
  that every call shares; the result is the error, the set and the parser. The error of
  the call that loads \<^verbatim>\<open>Prev\<close> is dropped. The first argument is the fuel.\<close>

fun Parser_LoadXref ::
    "crypto_lib \<Rightarrow> decoder \<Rightarrow> nat \<Rightarrow> int \<Rightarrow> int set \<Rightarrow> parser
       \<Rightarrow> (error option \<times> int set \<times> parser) outcome"
  and Parser_LoadXrefTable ::
    "crypto_lib \<Rightarrow> decoder \<Rightarrow> nat \<Rightarrow> int set \<Rightarrow> parser
       \<Rightarrow> (error option \<times> int set \<times> parser) outcome"
  and Parser_LoadXrefStream ::
    "crypto_lib \<Rightarrow> decoder \<Rightarrow> nat \<Rightarrow> int \<Rightarrow> int set \<Rightarrow> parser
       \<Rightarrow> (error option \<times> int set \<times> parser) outcome"
where
  "Parser_LoadXref lib dec 0 offset offsets p = Diverges"
| "Parser_LoadXref lib dec (Suc n) offset offsets p =
     (if offset \<in> offsets then Returns (None, offsets, p)
      else
        (case Parser_ReadKeyword (Seek offset (rd p)) of
           (keyword, r1) \<Rightarrow>
             if keyword = KEYWORD_XREF
             then Parser_LoadXrefTable lib dec n (insert offset offsets) (p\<lparr>rd := r1\<rparr>)
             else
               (case Parser_ReadObjectHeader (Seek offset r1) of
                  (number, g, Some err, r2) \<Rightarrow>
                    Returns (Some (NewError ''Expected xref table or stream''),
                             insert offset offsets, p\<lparr>rd := r2\<rparr>)
                | (number, g, None, r2) \<Rightarrow>
                    Parser_LoadXrefStream lib dec n number (insert offset offsets)
                      (p\<lparr>rd := r2,
                         Xref := (Xref p)(number \<mapsto>
                           (NewXrefEntry offset g XrefTypeIndirectObject)
                             \<lparr>IsEncrypted := False\<rparr>)\<rparr>))))"
| "Parser_LoadXrefTable lib dec 0 offsets p = Diverges"
| "Parser_LoadXrefTable lib dec (Suc n) offsets p =
     (case Parser_LoadXrefTable_sections Map.empty (rd p) of
        (Some err, xrefs, r1) \<Rightarrow> Returns (Some err, offsets, p\<lparr>rd := r1\<rparr>)
      | (None, xrefs, r1) \<Rightarrow>
          then_do (Parser_ReadDictionary n noDecryptor r1)
            (\<lambda>(v, err, r2).
               if err \<noteq> None then Returns (err, offsets, p\<lparr>rd := r2\<rparr>)
               else
                 (let trailer_dict = (case v of Dictionary t \<Rightarrow> t | _ \<Rightarrow> []) in
                  then_do
                    (case Dictionary_GetInt64 trailer_dict ''Prev'' of
                       Some prev \<Rightarrow> Parser_LoadXref lib dec n prev offsets (p\<lparr>rd := r2\<rparr>)
                     | None \<Rightarrow> Returns (None, offsets, p\<lparr>rd := r2\<rparr>))
                    (\<lambda>(err1, offsets1, p1).
                       Returns (None, offsets1,
                                p1\<lparr>trailer := Parser_merge_trailer trailer_dict (trailer p1),
                                   Xref := (Xref p1) ++ xrefs\<rparr>)))))"
| "Parser_LoadXrefStream lib dec 0 number offsets p = Diverges"
| "Parser_LoadXrefStream lib dec (Suc n) number offsets p =
     then_do (Parser_GetObject lib dec n number p)
       (\<lambda>(object, p0).
          case io_Value object of
            Dictionary trailer_dict \<Rightarrow>
              then_do
                (case Dictionary_GetInt64 trailer_dict ''Prev'' of
                   Some prev \<Rightarrow> Parser_LoadXref lib dec n prev offsets p0
                 | None \<Rightarrow> Returns (None, offsets, p0))
                (\<lambda>(err1, offsets1, p1).
                   case readXrefStream_body Parser_store trailer_dict
                          (case io_Stream object of Some d \<Rightarrow> d | None \<Rightarrow> []) (Xref p1) of
                     (err, xref1) \<Rightarrow>
                       Returns (err, offsets1,
                                p1\<lparr>trailer := Parser_merge_trailer trailer_dict (trailer p1),
                                   Xref := xref1\<rparr>))
          | _ \<Rightarrow> Returns (Some (NewError ''xref stream has no trailer dictionary''),
                          offsets, p0))"

text \<open>Algorithm 1 in the spec's words: the salt is the file key, the object number as
  three little-endian bytes, the generation as two, and \<^verbatim>\<open>sAlT\<close> for an AES filter; the key
  is the first \<open>min (len + 5) 16\<close> bytes of its MD5 sum.\<close>

definition le_bytes :: "nat \<Rightarrow> int \<Rightarrow> bytes" where
  "le_bytes k n = map (\<lambda>i. char_of (nat ((n div 256 ^ i) mod 256))) [0..<k]"

definition object_key_spec :: "crypto_lib \<Rightarrow> bool \<Rightarrow> bytes \<Rightarrow> int \<Rightarrow> int \<Rightarrow> bytes" where
  "object_key_spec lib aes file_key n g =
     take (min (length file_key + 5) 16)
       (md5_Sum lib (file_key @ le_bytes 3 n @ le_bytes 2 g @ (if aes then ''sAlT'' else [])))"

text \<open>A library for the examples: every cipher is the identity.\<close>

definition toy_lib :: crypto_lib where
  "toy_lib = \<lparr>md5_Sum = (\<lambda>m. m), rc4_XORKeyStream = (\<lambda>k d. d),
               cbc_CryptBlocks = (\<lambda>k iv d. d)\<rparr>"

section \<open>Example documents\<close>

text \<open>A document whose object 1 is an array with a stray closing parenthesis, and its
  xref with the one entry.\<close>

definition C2_parser :: parser where
  "C2_parser = \<lparr>rd = NewReader ''1 0 obj [)'',
                 Xref = [1 \<mapsto> NewXrefEntry 0 0 XrefTypeIndirectObject],
                 trailer = [], security_handler = None\<rparr>"

text \<open>A document that is an xref table with no entry and a trailer dictionary with a
  stray closing parenthesis.\<close>

definition C9_parser :: parser where
  "C9_parser = \<lparr>rd = NewReader ''xref trailer <<)'', Xref = Map.empty, trailer = [],
                 security_handler = None\<rparr>"

(*PROPERTIES*)

section \<open>Properties of the security handler\<close>

lemma take_bit_uint_drop_bit_uint32:
  "k \<le> 24 \<Longrightarrow>
     take_bit 8 (uint (drop_bit k (word_of_int n :: 32 word))) = take_bit 8 (drop_bit k n)"
  by (rule bit_eqI) (auto simp: bit_simps)

lemma char_of_drop_bit_uint32:
  assumes k: "k \<le> 24"
  shows "char_of (unat (drop_bit k (word_of_int n :: 32 word)))
           = char_of (nat ((n div 2 ^ k) mod 256))"
proof -
  have "char_of (unat (drop_bit k (word_of_int n :: 32 word)))
          = char_of (uint (drop_bit k (word_of_int n :: 32 word)))"
    by (metis char_of_nat of_nat_unat)
  also have "\<dots> = char_of (take_bit 8 (uint (drop_bit k (word_of_int n :: 32 word))))"
    by (simp add: char_of_take_bit_eq)
  also have "\<dots> = char_of (take_bit 8 (drop_bit k n))"
    using take_bit_uint_drop_bit_uint32[OF k] by simp
  also have "\<dots> = char_of (int (nat ((n div 2 ^ k) mod 256)))"
    by (simp add: take_bit_eq_mod drop_bit_eq_div)
  also have "\<dots> = char_of (nat ((n div 2 ^ k) mod 256))"
    by (rule char_of_nat)
  finally show ?thesis .
qed

lemma PutUint32_le_bytes: "PutUint32 (uint32 n) = le_bytes 4 n"
proof -
  have u: "[0..<4] = [0, 1, 2, 3::nat]"
    by (simp add: upt_rec)
  have b0: "char_of (unat (uint32 n)) = char_of (nat ((n div 256 ^ 0) mod 256))"
    using char_of_drop_bit_uint32[of 0 n] by (simp only: uint32_def drop_bit_0 power_0 id_apply)
  have b1: "char_of (unat (drop_bit 8 (uint32 n))) = char_of (nat ((n div 256 ^ 1) mod 256))"
  proof -
    have "(2::int) ^ 8 = 256 ^ 1" by simp
    then show ?thesis using char_of_drop_bit_uint32[of 8 n] by (simp only: uint32_def)
  qed
  have b2: "char_of (unat (drop_bit 16 (uint32 n))) = char_of (nat ((n div 256 ^ 2) mod 256))"
  proof -
    have "(2::int) ^ 16 = 256 ^ 2" by simp
    then show ?thesis using char_of_drop_bit_uint32[of 16 n] by (simp only: uint32_def)
  qed
  have b3: "char_of (unat (drop_bit 24 (uint32 n))) = char_of (nat ((n div 256 ^ 3) mod 256))"
  proof -
    have "(2::int) ^ 24 = 256 ^ 3" by simp
    then show ?thesis using char_of_drop_bit_uint32[of 24 n] by (simp only: uint32_def)
  qed
  show ?thesis
    unfolding PutUint32_def le_bytes_def u
    by (simp only: b0 b1 b2 b3 list.map)
qed

lemma take_le_bytes: "j \<le> k \<Longrightarrow> take j (le_bytes k n) = le_bytes j n"
  by (simp add: le_bytes_def take_map)

text \<open>
  Claim C6. For every object identifier \<open>(n, g)\<close> and file key \<open>k\<close>, the key that
  \<^verbatim>\<open>CryptFilterAES.Init\<close> and \<^verbatim>\<open>CryptFilterRC4.Init\<close> put into the new filter is the first
  \<open>min (len k + 5) 16\<close> bytes of the MD5 sum of \<open>k\<close>, \<open>n\<close> as three little-endian bytes,
  \<open>g\<close> as two little-endian bytes and, for the AES filter, the four bytes \<^verbatim>\<open>sAlT\<close>. The
  key is a function of \<open>(k, n, g)\<close> and the kind of filter, so two calls with the same
  inputs give the same key.
\<close>

theorem C6_per_object_key:
  "CryptFilterAES_Init lib k n g = CryptFilterAES (object_key_spec lib True k n g) \<and>
   CryptFilterRC4_Init lib k n g = CryptFilterRC4 (object_key_spec lib False k n g)"
  by (simp add: CryptFilterAES_Init_def CryptFilterRC4_Init_def object_key_spec_def
      PutUint32_le_bytes take_le_bytes min_def Let_def)

text \<open>
  Claim C10. For every ciphertext of at most 16 bytes \<^verbatim>\<open>CryptFilterAES.Decrypt\<close> returns
  the empty byte string, whatever the key, and does not panic; it returns a byte string
  that is not empty only for a ciphertext of more than 16 bytes.
\<close>

theorem C10_aes_decrypt_short:
  "(length d \<le> 16 \<longrightarrow> CryptFilterAES_Decrypt lib key d = Returns []) \<and>
   (\<forall>out. CryptFilterAES_Decrypt lib key d = Returns out \<longrightarrow> out \<noteq> [] \<longrightarrow> 16 < length d)"
  by (auto simp: CryptFilterAES_Decrypt_def split: if_splits)

theorem C10_aes_decrypt_short_witness:
  "length ''0123456789abcdef'' \<le> 16 \<and>
   CryptFilterAES_Decrypt toy_lib ''0123456789abcdef'' ''0123456789abcdef'' = Returns [] \<and>
   CryptFilterAES_Decrypt toy_lib ''0123456789abcdef'' ''0123456789abcdef0123456789abcdef''
     = Returns ''0123456789abcdef'' \<and>
   16 < length ''0123456789abcdef0123456789abcdef''"
  using C10_aes_decrypt_short[of "''0123456789abcdef''" toy_lib "''0123456789abcdef''"]
    C10_aes_decrypt_short[of "''0123456789abcdef0123456789abcdef''" toy_lib
      "''0123456789abcdef''"]
  by (simp add: CryptFilterAES_Decrypt_def toy_lib_def)

section \<open>Evaluation\<close>

lemmas reader_eval = ReadByte_def UnreadByte_def Peek_def avail_def defaultBufSize_def Seek_def
  NewReader_def whitespace_def delimiters_def CurrentOffset_def

lemmas lexer_eval = Parser_consumeWhitespace.simps Parser_consumeComment.simps
  Parser_ReadKeyword_def Parser_ReadKeyword_loop.simps NewKeyword_def
  Parser_ReadInt_def Parser_ReadInt64_def readInt64_loop.simps digit_def isNumberStart_def
  Parser_ReadObjectHeader_def

section \<open>Indirect objects\<close>

lemma C2_stuck:
  "Parser_ReadObject (Suc n) d \<lparr>data = ''1 0 obj [)'', pos = 9, buffered = Suc 0, last_ok = l\<rparr>
     = Returns (Keyword KEYWORD_NULL, None,
                \<lparr>data = ''1 0 obj [)'', pos = 9, buffered = Suc 0, last_ok = False\<rparr>)"
  by (simp add: reader_eval lexer_eval)

lemma C2_loop:
  "Parser_ReadArray_loop n d acc
     \<lparr>data = ''1 0 obj [)'', pos = 9, buffered = Suc 0, last_ok = l\<rparr> = Diverges"
proof (induction n arbitrary: acc l)
  case 0
  show ?case by simp
next
  case (Suc n)
  show ?case
  proof (cases n)
    case 0
    then show ?thesis by (simp add: then_do_def)
  next
    case (Suc m)
    have "Parser_ReadArray_loop (Suc n) d acc
            \<lparr>data = ''1 0 obj [)'', pos = 9, buffered = Suc 0, last_ok = l\<rparr>
          = Parser_ReadArray_loop n d (acc @ [Keyword KEYWORD_NULL])
              \<lparr>data = ''1 0 obj [)'', pos = 9, buffered = Suc 0, last_ok = False\<rparr>"
      unfolding Parser_ReadArray_loop.simps Suc C2_stuck by (simp add: then_do_def)
    then show ?thesis by (simp only: Suc.IH)
  qed
qed

lemma C2_array:
  "Parser_ReadArray n d \<lparr>data = ''1 0 obj [)'', pos = 7, buffered = 3, last_ok = False\<rparr>
     = Diverges"
proof (cases n)
  case 0
  then show ?thesis by simp
next
  case (Suc m)
  have "ReadByte (Parser_consumeWhitespace
          \<lparr>data = ''1 0 obj [)'', pos = 7, buffered = 3, last_ok = False\<rparr>)
        = (Some CHR ''['', \<lparr>data = ''1 0 obj [)'', pos = 9, buffered = Suc 0, last_ok = True\<rparr>)"
    by (simp add: reader_eval lexer_eval)
  then show ?thesis unfolding Suc Parser_ReadArray.simps
    by (simp add: C2_loop then_do_def)
qed

lemma C2_object:
  "Parser_ReadObject n d \<lparr>data = ''1 0 obj [)'', pos = 7, buffered = 3, last_ok = False\<rparr>
     = Diverges"
proof (cases n)
  case 0
  then show ?thesis by simp
next
  case (Suc m)
  have "Peek 2 (Parser_consumeWhitespace
          \<lparr>data = ''1 0 obj [)'', pos = 7, buffered = 3, last_ok = False\<rparr>)
        = (''[)'', \<lparr>data = ''1 0 obj [)'', pos = 8, buffered = 2, last_ok = False\<rparr>)"
    by (simp add: reader_eval lexer_eval)
  moreover have "Parser_ReadArray m d
      \<lparr>data = ''1 0 obj [)'', pos = 8, buffered = 2, last_ok = False\<rparr> = Diverges"
  proof (cases m)
    case 0
    then show ?thesis by simp
  next
    case (Suc k)
    have "ReadByte (Parser_consumeWhitespace
            \<lparr>data = ''1 0 obj [)'', pos = 8, buffered = 2, last_ok = False\<rparr>)
          = (Some CHR ''['',
             \<lparr>data = ''1 0 obj [)'', pos = 9, buffered = Suc 0, last_ok = True\<rparr>)"
      by (simp add: reader_eval lexer_eval)
    then show ?thesis unfolding Suc Parser_ReadArray.simps
      by (simp add: C2_loop then_do_def)
  qed
  ultimately show ?thesis unfolding Suc Parser_ReadObject.simps by simp
qed

text \<open>
  Claim C2. \<^verbatim>\<open>ReadObject(n)\<close> and \<^verbatim>\<open>GetObject(n)\<close> are to return an indirect object for
  every object number. \<^verbatim>\<open>GetObject\<close> of \<^verbatim>\<open>parser.go\<close> does not return on the document
  \<^verbatim>\<open>1 0 obj [)\<close>: at the stray parenthesis \<^verbatim>\<open>ReadObject\<close> falls through to \<^verbatim>\<open>ReadKeyword\<close>,
  which consumes nothing and reports no error, and the loop of \<^verbatim>\<open>ReadArray\<close> goes on for
  ever. Whatever the fuel, the call has not returned.
\<close>

theorem C2_GetObject_diverges:
  "Parser_GetObject lib dec fuel 1 C2_parser = Diverges"
proof -
  have "Parser_ReadObjectHeader (Seek 0 (rd C2_parser))
        = (1, 0, None, \<lparr>data = ''1 0 obj [)'', pos = 7, buffered = 3, last_ok = False\<rparr>)"
    by (simp add: C2_parser_def reader_eval lexer_eval)
  then show ?thesis
    by (simp add: Parser_GetObject_def C2_parser_def NewXrefEntry_def
        XrefTypeIndirectObject_def C2_object then_do_def)
qed


section \<open>Xref loading\<close>

lemma C9_stuck:
  "Parser_ReadObject (Suc n) d
     \<lparr>data = ''xref trailer <<)'', pos = 15, buffered = Suc 0, last_ok = l\<rparr>
     = Returns (Keyword KEYWORD_NULL, None,
                \<lparr>data = ''xref trailer <<)'', pos = 15, buffered = Suc 0, last_ok = False\<rparr>)"
  by (simp add: reader_eval lexer_eval)

lemma C9_loop:
  "Parser_ReadDictionary_loop n d acc
     \<lparr>data = ''xref trailer <<)'', pos = 15, buffered = Suc 0, last_ok = l\<rparr> = Diverges"
proof (induction n arbitrary: acc l)
  case 0
  show ?case by simp
next
  case (Suc n)
  show ?case
  proof (cases n)
    case 0
    then show ?thesis by (simp add: then_do_def)
  next
    case (Suc m)
    have "Parser_ReadDictionary_loop (Suc n) d acc
            \<lparr>data = ''xref trailer <<)'', pos = 15, buffered = Suc 0, last_ok = l\<rparr>
          = Parser_ReadDictionary_loop n d acc
              \<lparr>data = ''xref trailer <<)'', pos = 15, buffered = Suc 0, last_ok = False\<rparr>"
      unfolding Parser_ReadDictionary_loop.simps Suc C9_stuck by (simp add: then_do_def)
    then show ?thesis by (simp only: Suc.IH)
  qed
qed

lemma C9_dictionary:
  "Parser_ReadDictionary n d
     \<lparr>data = ''xref trailer <<)'', pos = 12, buffered = 4, last_ok = False\<rparr> = Diverges"
proof (cases n)
  case 0
  then show ?thesis by simp
next
  case (Suc m)
  have "Read 2 (Parser_consumeWhitespace
          \<lparr>data = ''xref trailer <<)'', pos = 12, buffered = 4, last_ok = False\<rparr>)
        = (''<<'', \<lparr>data = ''xref trailer <<)'', pos = 15, buffered = Suc 0, last_ok = True\<rparr>)"
    by (simp add: reader_eval lexer_eval Read_def)
  then show ?thesis unfolding Suc Parser_ReadDictionary.simps
    by (simp add: C9_loop then_do_def)
qed

lemma C9_table:
  "Parser_LoadXrefTable lib dec n offsets
     (C9_parser\<lparr>rd := \<lparr>data = ''xref trailer <<)'', pos = 4, buffered = 12, last_ok = False\<rparr>\<rparr>)
     = Diverges"
proof (cases n)
  case 0
  then show ?thesis by simp
next
  case (Suc m)
  have "Parser_LoadXrefTable_sections Map.empty
          \<lparr>data = ''xref trailer <<)'', pos = 4, buffered = 12, last_ok = False\<rparr>
        = (None, Map.empty,
           \<lparr>data = ''xref trailer <<)'', pos = 12, buffered = 4, last_ok = False\<rparr>)"
    by (simp add: Parser_LoadXrefTable_sections.simps reader_eval lexer_eval)
  then show ?thesis unfolding Suc Parser_LoadXrefTable.simps
    by (simp add: C9_dictionary then_do_def)
qed

text \<open>
  Claim C9. Xref-section loading is to terminate for every input. \<^verbatim>\<open>LoadXref\<close> of
  \<^verbatim>\<open>parser.go\<close> does not return on the document \<^verbatim>\<open>xref trailer <<)\<close>: the table has no
  \<^verbatim>\<open>Prev\<close> chain at all, and the loop of \<^verbatim>\<open>ReadDictionary\<close> on its trailer goes on for ever
  at the stray parenthesis. Whatever the fuel, the call has not returned.
\<close>

theorem C9_LoadXref_diverges:
  "Parser_LoadXref lib dec fuel 0 {} C9_parser = Diverges"
proof (cases fuel)
  case 0
  then show ?thesis by simp
next
  case (Suc n)
  have "Parser_ReadKeyword (Seek 0 (rd C9_parser))
        = (KEYWORD_XREF,
           \<lparr>data = ''xref trailer <<)'', pos = 4, buffered = 12, last_ok = False\<rparr>)"
    by (simp add: C9_parser_def reader_eval lexer_eval)
  then show ?thesis unfolding Suc Parser_LoadXref.simps
    by (simp add: C9_table)
qed


section \<open>Numbers\<close>

text \<open>
  Claim C7. The number \<^verbatim>\<open>0.25\<close> is to parse to 0.25. \<^verbatim>\<open>ReadNumber\<close> divides the \<open>i\<close>-th
  digit after the point by \<open>10 * i\<close> and not by \<open>10 ^ i\<close>: it returns \<open>2/10 + 5/20\<close>, which
  is 0.45.
\<close>

theorem C7_ReadNumber_quarter:
  "Parser_ReadNumber (NewReader ''0.25'')
     = (9 / 20, None, \<lparr>data = ''0.25'', pos = 4, buffered = 0, last_ok = True\<rparr>)"
  by (simp add: Parser_ReadNumber_def readNumber_first_def readNumber_rest_def
      readNumber_int.simps readNumber_real.simps reader_eval lexer_eval)

end
